theory Spec2Isabelle
  imports Main "HOL-Library.Word" "HOL-Library.Char_ord" "HOL-Library.List_Lexorder"
    "HOL-Library.Multiset"
begin

section \<open>Data model of \<^verbatim>\<open>api/v1alpha1/gitsync_types.go\<close>\<close>

text \<open>
  \<^verbatim>\<open>GitSyncPhase\<close>, \<^verbatim>\<open>ConditionType\<close> and \<^verbatim>\<open>metav1.ConditionStatus\<close> are Go string types, so
  they are strings here; Go compares strings bytewise, which is the lexicographic order
  of \<^typ>\<open>string\<close> (characters ordered by their code).
  \<^verbatim>\<open>metav1.Time\<close> is a point in time; only its equality and its order are used, so it is
  an integer, and the zero \<^verbatim>\<open>Time\<close> of a struct literal is \<open>0\<close>.
\<close>

type_synonym GitSyncPhase = string
type_synonym ConditionType = string
type_synonym ConditionStatus = string
type_synonym Time = int

definition GitSyncPhasePending :: GitSyncPhase where
  "GitSyncPhasePending = ''Pending''"

definition GitSyncPhaseRunning :: GitSyncPhase where
  "GitSyncPhaseRunning = ''Running''"

definition GitSyncPhaseFailed :: GitSyncPhase where
  "GitSyncPhaseFailed = ''Failed''"

definition GitSyncPhaseNA :: GitSyncPhase where
  "GitSyncPhaseNA = ''NotApplicable''"

definition GitSyncConditionConfigured :: ConditionType where
  "GitSyncConditionConfigured = ''Configured''"

definition ConditionTrue :: ConditionStatus where
  "ConditionTrue = ''True''"

definition ConditionFalse :: ConditionStatus where
  "ConditionFalse = ''False''"

definition ConditionUnknown :: ConditionStatus where
  "ConditionUnknown = ''Unknown''"

text \<open>
  \<^verbatim>\<open>metav1.Condition\<close> is the struct of \<^verbatim>\<open>k8s.io/apimachinery/pkg/apis/meta/v1\<close> that line 24
  imports. Its fields, in declaration order, are \<^verbatim>\<open>Type\<close>, \<^verbatim>\<open>Status\<close>,
  \<^verbatim>\<open>ObservedGeneration int64\<close>, \<^verbatim>\<open>LastTransitionTime\<close>, \<^verbatim>\<open>Reason\<close> and \<^verbatim>\<open>Message\<close>.
  \<^verbatim>\<open>reflect.DeepEqual\<close> on two such structs compares every field, which is equality of
  the record.
\<close>

record Condition =
  Type :: string
  Status :: ConditionStatus
  ObservedGeneration :: "64 word"
  LastTransitionTime :: Time
  Reason :: string
  Message :: string

record CommitStatus =
  Hash :: string
  Synced :: bool
  SyncTime :: Time
  Error :: string

text \<open>
  \<^verbatim>\<open>GitSyncStatus\<close>, lines 55 to 68. \<^verbatim>\<open>CommitStatus\<close> is a pointer that no operation below
  dereferences or assigns, so it is an optional value.
\<close>

record GitSyncStatus =
  Phase :: GitSyncPhase
  Conditions :: "Condition list"
  Message :: string
  CommitStatus :: "CommitStatus option"

text \<open>The zero value \<^verbatim>\<open>GitSyncStatus{}\<close>: a status nobody has written yet.\<close>

definition emptyStatus :: GitSyncStatus where
  "emptyStatus = \<lparr>Phase = [], Conditions = [], Message = [], CommitStatus = None\<rparr>"

section \<open>Operations\<close>

text \<open>\<^verbatim>\<open>SetPhase\<close>, lines 157 to 160.\<close>

definition SetPhase :: "GitSyncPhase \<Rightarrow> string \<Rightarrow> GitSyncStatus \<Rightarrow> GitSyncStatus" where
  "SetPhase phase msg status = status\<lparr>Phase := phase, Message := msg\<rparr>"

text \<open>
  The loop of \<^verbatim>\<open>setCondition\<close>, lines 178 to 187, over the conditions not yet visited.
  Its state is the local \<^verbatim>\<open>condition\<close> (line 182 overwrites its timestamp) and the
  slice \<^verbatim>\<open>conditions\<close> built so far; \<open>None\<close> is the \<^verbatim>\<open>return\<close> of line 184.
\<close>

fun setCondition_loop ::
  "Condition \<Rightarrow> Condition list \<Rightarrow> Condition list \<Rightarrow> (Condition \<times> Condition list) option" where
  "setCondition_loop condition conditions [] = Some (condition, conditions)"
| "setCondition_loop condition conditions (c # rest) =
     (if Type c \<noteq> Type condition then setCondition_loop condition (conditions @ [c]) rest
      else let condition' = condition\<lparr>LastTransitionTime := LastTransitionTime c\<rparr> in
           if condition' = c then None
           else setCondition_loop condition' conditions rest)"

text \<open>
  \<^verbatim>\<open>setCondition\<close>, lines 175 to 193. \<open>now\<close> is what \<^verbatim>\<open>time.Now()\<close> returns when line 189
  is reached. \<^verbatim>\<open>sort.Slice\<close> with the comparison of line 191 is \<open>sort_key Type\<close>, a stable
  insertion sort. \<^verbatim>\<open>sort.Slice\<close> promises a sorted permutation and not stability, so the
  two can differ only in the order of conditions of one type; wherever a result below
  is a concrete list that went through the sort, its types are pairwise different.
\<close>

definition setCondition :: "Time \<Rightarrow> Condition \<Rightarrow> GitSyncStatus \<Rightarrow> GitSyncStatus" where
  "setCondition now condition status =
     (case setCondition_loop condition [] (Conditions status) of
        None \<Rightarrow> status
      | Some (condition', conditions) \<Rightarrow>
          status\<lparr>Conditions :=
            sort_key Type (conditions @ [condition'\<lparr>LastTransitionTime := now\<rparr>])\<rparr>)"

text \<open>
  \<^verbatim>\<open>InitializeConditions\<close>, lines 163 to 172. The struct literal leaves
  \<^verbatim>\<open>ObservedGeneration\<close>, \<^verbatim>\<open>LastTransitionTime\<close> and \<^verbatim>\<open>Message\<close> at their zero values.
  \<open>clock i\<close> is the reading of \<^verbatim>\<open>time.Now()\<close> during the iteration for the \<open>i\<close>-th type.
\<close>

definition unknownCondition :: "ConditionType \<Rightarrow> Condition" where
  "unknownCondition t =
     \<lparr>Type = t, Status = ConditionUnknown, ObservedGeneration = 0,
      LastTransitionTime = 0, Reason = ''Unknown'', Message = []\<rparr>"

fun InitializeConditions ::
  "(nat \<Rightarrow> Time) \<Rightarrow> ConditionType list \<Rightarrow> GitSyncStatus \<Rightarrow> GitSyncStatus" where
  "InitializeConditions clock [] status = status"
| "InitializeConditions clock (t # conditionTypes) status =
     InitializeConditions (\<lambda>i. clock (Suc i)) conditionTypes
       (setCondition (clock 0) (unknownCondition t) status)"

text \<open>\<^verbatim>\<open>InitConditions\<close>, lines 196 to 199: one type, so one reading of the clock.\<close>

definition InitConditions :: "Time \<Rightarrow> GitSyncStatus \<Rightarrow> GitSyncStatus" where
  "InitConditions now status =
     SetPhase GitSyncPhasePending []
       (InitializeConditions (\<lambda>i. now) [GitSyncConditionConfigured] status)"

text \<open>\<^verbatim>\<open>markTypeStatus\<close>, lines 201 to 208.\<close>

definition markTypeStatus ::
  "Time \<Rightarrow> ConditionType \<Rightarrow> ConditionStatus \<Rightarrow> string \<Rightarrow> string \<Rightarrow> GitSyncStatus \<Rightarrow> GitSyncStatus" where
  "markTypeStatus now t s reason message status =
     setCondition now
       \<lparr>Type = t, Status = s, ObservedGeneration = 0, LastTransitionTime = 0,
        Reason = reason, Message = message\<rparr> status"

text \<open>\<^verbatim>\<open>MarkConditionTrue\<close>, \<^verbatim>\<open>MarkConditionFalse\<close>, \<^verbatim>\<open>MarkConditionUnknown\<close>, lines 210 to 223.\<close>

definition MarkConditionTrue :: "Time \<Rightarrow> ConditionType \<Rightarrow> GitSyncStatus \<Rightarrow> GitSyncStatus" where
  "MarkConditionTrue now t status =
     markTypeStatus now t ConditionTrue ''Successful'' ''Successful'' status"

definition MarkConditionFalse ::
  "Time \<Rightarrow> ConditionType \<Rightarrow> string \<Rightarrow> string \<Rightarrow> GitSyncStatus \<Rightarrow> GitSyncStatus" where
  "MarkConditionFalse now t reason message status =
     markTypeStatus now t ConditionFalse reason message status"

definition MarkConditionUnknown ::
  "Time \<Rightarrow> ConditionType \<Rightarrow> string \<Rightarrow> string \<Rightarrow> GitSyncStatus \<Rightarrow> GitSyncStatus" where
  "MarkConditionUnknown now t reason message status =
     markTypeStatus now t ConditionUnknown reason message status"

text \<open>\<^verbatim>\<open>MarkRunning\<close>, \<^verbatim>\<open>MarkFailed\<close>, \<^verbatim>\<open>MarkNotApplicable\<close>, lines 225 to 241.\<close>

definition MarkRunning :: "Time \<Rightarrow> GitSyncStatus \<Rightarrow> GitSyncStatus" where
  "MarkRunning now status =
     SetPhase GitSyncPhaseRunning []
       (MarkConditionTrue now GitSyncConditionConfigured status)"

definition MarkFailed :: "Time \<Rightarrow> string \<Rightarrow> string \<Rightarrow> GitSyncStatus \<Rightarrow> GitSyncStatus" where
  "MarkFailed now reason message status =
     SetPhase GitSyncPhaseFailed message
       (MarkConditionFalse now GitSyncConditionConfigured reason message status)"

definition MarkNotApplicable :: "Time \<Rightarrow> string \<Rightarrow> string \<Rightarrow> GitSyncStatus \<Rightarrow> GitSyncStatus" where
  "MarkNotApplicable now reason message status =
     SetPhase GitSyncPhaseNA message
       (MarkConditionFalse now GitSyncConditionConfigured reason message status)"

text \<open>
  A caller's sequence of \<^verbatim>\<open>setCondition\<close> calls, each with the clock reading at its time.
\<close>

fun setConditions :: "(Time \<times> Condition) list \<Rightarrow> GitSyncStatus \<Rightarrow> GitSyncStatus" where
  "setConditions [] status = status"
| "setConditions ((now, condition) # calls) status =
     setConditions calls (setCondition now condition status)"

section \<open>Vocabulary of the properties\<close>

text \<open>
  A condition is present in a list when the list holds a condition of its type that
  equals it in every field except the timestamp: exactly when line 183 succeeds for
  some stored condition.
\<close>

definition present :: "Condition \<Rightarrow> Condition list \<Rightarrow> bool" where
  "present condition cs \<longleftrightarrow>
     (\<exists>c \<in> set cs. Type c = Type condition \<and>
        condition\<lparr>LastTransitionTime := LastTransitionTime c\<rparr> = c)"

text \<open>Example states and conditions at which the properties are evaluated.\<close>

definition successfulCondition :: Condition where
  "successfulCondition =
     \<lparr>Type = GitSyncConditionConfigured, Status = ConditionTrue, ObservedGeneration = 0,
      LastTransitionTime = 0, Reason = ''Successful'', Message = ''Successful''\<rparr>"

definition failedCondition :: Condition where
  "failedCondition =
     \<lparr>Type = GitSyncConditionConfigured, Status = ConditionFalse, ObservedGeneration = 0,
      LastTransitionTime = 0, Reason = ''GitError'', Message = ''clone failed''\<rparr>"

definition storedSuccessful :: Condition where
  "storedSuccessful = successfulCondition\<lparr>LastTransitionTime := 10\<rparr>"

definition storedObserved :: Condition where
  "storedObserved = successfulCondition\<lparr>ObservedGeneration := 3, LastTransitionTime := 10\<rparr>"

definition storedFailed :: Condition where
  "storedFailed = failedCondition\<lparr>LastTransitionTime := 11\<rparr>"

definition runningStatus :: GitSyncStatus where
  "runningStatus =
     \<lparr>Phase = GitSyncPhaseRunning, Conditions = [storedSuccessful], Message = [],
      CommitStatus = None\<rparr>"

definition observedStatus :: GitSyncStatus where
  "observedStatus =
     \<lparr>Phase = GitSyncPhaseRunning, Conditions = [storedObserved], Message = [],
      CommitStatus = None\<rparr>"

definition duplicateStatus :: GitSyncStatus where
  "duplicateStatus =
     \<lparr>Phase = GitSyncPhaseFailed, Conditions = [storedSuccessful, storedFailed],
      Message = ''clone failed'', CommitStatus = None\<rparr>"

definition unsortedStatus :: GitSyncStatus where
  "unsortedStatus =
     \<lparr>Phase = [], Conditions =
        [(unknownCondition ''B'')\<lparr>LastTransitionTime := 10\<rparr>,
         (unknownCondition ''A'')\<lparr>LastTransitionTime := 11\<rparr>],
      Message = [], CommitStatus = None\<rparr>"

definition storedUnknown :: Condition where
  "storedUnknown = (unknownCondition GitSyncConditionConfigured)\<lparr>LastTransitionTime := 11\<rparr>"

definition mixedStatus :: GitSyncStatus where
  "mixedStatus =
     \<lparr>Phase = GitSyncPhaseRunning, Conditions = [storedSuccessful, storedUnknown],
      Message = [], CommitStatus = None\<rparr>"

definition pendingStatus :: GitSyncStatus where
  "pendingStatus =
     \<lparr>Phase = GitSyncPhasePending, Conditions = [storedUnknown], Message = [],
      CommitStatus = None\<rparr>"

definition failedStatus :: GitSyncStatus where
  "failedStatus =
     \<lparr>Phase = GitSyncPhaseFailed, Conditions = [storedFailed], Message = ''clone failed'',
      CommitStatus = None\<rparr>"

definition threeStatus :: GitSyncStatus where
  "threeStatus =
     \<lparr>Phase = GitSyncPhaseRunning, Conditions =
        [(unknownCondition ''A'')\<lparr>LastTransitionTime := 1\<rparr>,
         storedSuccessful,
         (unknownCondition ''Z'')\<lparr>LastTransitionTime := 2\<rparr>],
      Message = [], CommitStatus = None\<rparr>"

section \<open>What the loop computes\<close>

lemma setCondition_loop_None:
  "setCondition_loop condition acc cs = None \<longleftrightarrow>
     (\<exists>c \<in> set cs. Type c = Type condition \<and>
        condition\<lparr>LastTransitionTime := LastTransitionTime c\<rparr> = c)"
  by (induction cs arbitrary: condition acc) (auto simp: Let_def)

lemma setCondition_loop_Some:
  "setCondition_loop condition acc cs = Some (condition', acc') \<Longrightarrow>
     acc' = acc @ filter (\<lambda>c. Type c \<noteq> Type condition) cs \<and>
     condition'\<lparr>LastTransitionTime := t\<rparr> = condition\<lparr>LastTransitionTime := t\<rparr>"
proof (induction cs arbitrary: condition acc)
  case Nil
  then show ?case by simp
next
  case (Cons c cs)
  show ?case
  proof (cases "Type c = Type condition")
    case False
    with Cons.prems have "setCondition_loop condition (acc @ [c]) cs = Some (condition', acc')"
      by simp
    from Cons.IH [OF this] False show ?thesis by simp
  next
    case True
    let ?k = "condition\<lparr>LastTransitionTime := LastTransitionTime c\<rparr>"
    from Cons.prems True have "setCondition_loop ?k acc cs = Some (condition', acc')"
      by (simp add: Let_def split: if_splits)
    from Cons.IH [OF this] True show ?thesis by simp
  qed
qed

text \<open>
  The two outcomes of \<^verbatim>\<open>setCondition\<close>: the early return when some stored condition of
  the incoming type equals the incoming one up to the timestamp, and otherwise the
  rebuilt, stamped and sorted list.
\<close>

lemma setCondition_noop:
  assumes "c \<in> set (Conditions status)" "Type c = Type condition"
    "condition\<lparr>LastTransitionTime := LastTransitionTime c\<rparr> = c"
  shows "setCondition now condition status = status"
proof -
  from assms have "setCondition_loop condition [] (Conditions status) = None"
    unfolding setCondition_loop_None by blast
  then show ?thesis by (simp add: setCondition_def)
qed

lemma setCondition_effective:
  assumes "\<forall>c \<in> set (Conditions status). Type c = Type condition \<longrightarrow>
             condition\<lparr>LastTransitionTime := LastTransitionTime c\<rparr> \<noteq> c"
  shows "setCondition now condition status =
           status\<lparr>Conditions :=
             sort_key Type (filter (\<lambda>c. Type c \<noteq> Type condition) (Conditions status)
                            @ [condition\<lparr>LastTransitionTime := now\<rparr>])\<rparr>"
proof -
  from assms have "setCondition_loop condition [] (Conditions status) \<noteq> None"
    unfolding setCondition_loop_None by blast
  then obtain k acc where s: "setCondition_loop condition [] (Conditions status) = Some (k, acc)"
    by auto
  from setCondition_loop_Some [OF s, of now] s show ?thesis
    by (simp add: setCondition_def)
qed

lemma setCondition_frame:
  "Phase (setCondition now condition status) = Phase status"
  "Message (setCondition now condition status) = Message status"
  "CommitStatus (setCondition now condition status) = CommitStatus status"
  by (simp_all add: setCondition_def split: option.split prod.split)

lemma InitializeConditions_frame:
  "Phase (InitializeConditions clock ts status) = Phase status \<and>
   Message (InitializeConditions clock ts status) = Message status \<and>
   CommitStatus (InitializeConditions clock ts status) = CommitStatus status"
  by (induction ts arbitrary: clock status) (simp_all add: setCondition_frame)

lemma setCondition_present_noop:
  "present condition (Conditions status) \<Longrightarrow> setCondition now condition status = status"
  unfolding present_def using setCondition_noop by blast

lemma setCondition_absent:
  "\<not> present condition (Conditions status) \<Longrightarrow>
     Conditions (setCondition now condition status) =
       sort_key Type (filter (\<lambda>c. Type c \<noteq> Type condition) (Conditions status)
                      @ [condition\<lparr>LastTransitionTime := now\<rparr>])"
  unfolding present_def using setCondition_effective [of status condition now] by auto

lemma present_after_setCondition:
  "present condition (Conditions (setCondition now condition status))"
proof (cases "present condition (Conditions status)")
  case True
  then show ?thesis by (simp add: setCondition_present_noop)
next
  case False
  have "condition\<lparr>LastTransitionTime := now\<rparr>
          \<in> set (Conditions (setCondition now condition status))"
    by (simp add: setCondition_absent [OF False])
  then show ?thesis unfolding present_def
    by (intro bexI [of _ "condition\<lparr>LastTransitionTime := now\<rparr>"]) simp_all
qed

lemma present_other_type:
  assumes "present d (Conditions status)" "Type d \<noteq> Type condition"
  shows "present d (Conditions (setCondition now condition status))"
proof (cases "present condition (Conditions status)")
  case True
  with assms show ?thesis by (simp add: setCondition_present_noop)
next
  case False
  from assms obtain x where x: "x \<in> set (Conditions status)" "Type x = Type d"
    "d\<lparr>LastTransitionTime := LastTransitionTime x\<rparr> = x"
    unfolding present_def by blast
  with assms have "x \<in> set (Conditions (setCondition now condition status))"
    by (simp add: setCondition_absent [OF False])
  with x show ?thesis unfolding present_def by blast
qed

lemma present_unknown_kept:
  assumes "present (unknownCondition t) (Conditions status)"
  shows "present (unknownCondition t) (Conditions (setCondition now (unknownCondition u) status))"
proof (cases "t = u")
  case True
  then show ?thesis by (simp add: present_after_setCondition)
next
  case False
  then have "Type (unknownCondition t) \<noteq> Type (unknownCondition u)"
    by (simp add: unknownCondition_def)
  from present_other_type [OF assms this] show ?thesis .
qed

lemma InitializeConditions_keeps_present:
  "present (unknownCondition t) (Conditions status) \<Longrightarrow>
     present (unknownCondition t) (Conditions (InitializeConditions clock ts status))"
  by (induction ts arbitrary: clock status) (simp_all add: present_unknown_kept)

lemma InitializeConditions_all_present:
  "t \<in> set ts \<Longrightarrow>
     present (unknownCondition t) (Conditions (InitializeConditions clock ts status))"
proof (induction ts arbitrary: clock status)
  case Nil
  then show ?case by simp
next
  case (Cons u ts)
  show ?case
  proof (cases "t = u")
    case True
    then show ?thesis
      by (simp add: InitializeConditions_keeps_present present_after_setCondition)
  next
    case False
    with Cons.prems have "t \<in> set ts" by simp
    from Cons.IH [OF this] show ?thesis by simp
  qed
qed

lemma InitializeConditions_noop:
  "(\<And>t. t \<in> set ts \<Longrightarrow> present (unknownCondition t) (Conditions status)) \<Longrightarrow>
     InitializeConditions clock ts status = status"
  by (induction ts arbitrary: clock) (simp_all add: setCondition_present_noop)

lemma setCondition_twice:
  "setCondition now' condition (setCondition now condition status) =
     setCondition now condition status"
  by (rule setCondition_present_noop) (rule present_after_setCondition)

lemma InitializeConditions_twice:
  "InitializeConditions clock' ts (InitializeConditions clock ts status) =
     InitializeConditions clock ts status"
  by (rule InitializeConditions_noop) (rule InitializeConditions_all_present)

lemma distinct_types_setCondition:
  assumes "distinct (map Type (Conditions status))"
  shows "distinct (map Type (Conditions (setCondition now condition status)))"
proof (cases "present condition (Conditions status)")
  case True
  with assms show ?thesis by (simp add: setCondition_present_noop)
next
  case False
  let ?kept = "filter (\<lambda>c. Type c \<noteq> Type condition) (Conditions status)"
  let ?new = "condition\<lparr>LastTransitionTime := now\<rparr>"
  from assms have "distinct (map Type ?kept)" by (rule distinct_map_filter)
  then have d: "distinct (map Type (?kept @ [?new]))" by auto
  then have "distinct (map Type (sort_key Type (?kept @ [?new])))"
    by (simp only: distinct_map distinct_sort set_sort) 
  then show ?thesis by (simp only: setCondition_absent [OF False])
qed

lemma sorted_types_setCondition:
  assumes "sorted (map Type (Conditions status))"
  shows "sorted (map Type (Conditions (setCondition now condition status)))"
proof (cases "present condition (Conditions status)")
  case True
  with assms show ?thesis by (simp add: setCondition_present_noop)
next
  case False
  show ?thesis by (simp only: setCondition_absent [OF False] sorted_sort_key)
qed

lemma filter_unique_key:
  "distinct (map f xs) \<Longrightarrow> x \<in> set xs \<Longrightarrow> filter (\<lambda>y. f y = f x) xs = [x]"
proof (induction xs)
  case Nil
  then show ?case by simp
next
  case (Cons a xs)
  show ?case
  proof (cases "x = a")
    case True
    from Cons.prems(1) have "f a \<notin> f ` set xs" by simp
    then have "\<forall>y \<in> set xs. f y \<noteq> f a" by (metis image_eqI)
    then have "filter (\<lambda>y. f y = f a) xs = []" by (simp add: filter_empty_conv)
    with True show ?thesis by simp
  next
    case False
    with Cons.prems have x: "x \<in> set xs" and "f a \<noteq> f x" by auto
    with Cons.IH Cons.prems(1) show ?thesis by simp
  qed
qed

lemma present_unique:
  assumes "distinct (map Type cs)" "present condition cs"
  shows "\<exists>t. filter (\<lambda>c. Type c = Type condition) cs =
               [condition\<lparr>LastTransitionTime := t\<rparr>]"
proof -
  from assms(2) obtain x where x: "x \<in> set cs" "Type x = Type condition"
    "condition\<lparr>LastTransitionTime := LastTransitionTime x\<rparr> = x"
    unfolding present_def by blast
  from filter_unique_key [OF assms(1) x(1)] x(2)
  have "filter (\<lambda>c. Type c = Type condition) cs = [x]" by simp
  with x(3) show ?thesis by metis
qed

text \<open>
  What one call does on any status: either a condition equal to the incoming one up to
  the timestamp is stored and the status is returned as it was, or afterwards the
  incoming condition, stamped with the current time, is the only condition of its
  type. In both cases the conditions of the other types are kept, each as often as
  it was stored.
\<close>

lemma setCondition_outcome:
  "(present condition (Conditions status) \<and> setCondition now condition status = status) \<or>
   (\<not> present condition (Conditions status) \<and>
    filter (\<lambda>c. Type c = Type condition) (Conditions (setCondition now condition status)) =
      [condition\<lparr>LastTransitionTime := now\<rparr>])"
proof (cases "present condition (Conditions status)")
  case True
  then show ?thesis by (simp add: setCondition_present_noop)
next
  case False
  have "filter (\<lambda>c. Type c = Type condition)
      (sort_key Type (filter (\<lambda>c. Type c \<noteq> Type condition) (Conditions status)
                      @ [condition\<lparr>LastTransitionTime := now\<rparr>])) =
      [condition\<lparr>LastTransitionTime := now\<rparr>]"
    unfolding filter_sort by simp
  with False show ?thesis by (simp only: setCondition_absent [OF False] simp_thms)
qed

lemma setCondition_keeps_others:
  "mset (filter (\<lambda>c. Type c \<noteq> Type condition)
          (Conditions (setCondition now condition status))) =
   mset (filter (\<lambda>c. Type c \<noteq> Type condition) (Conditions status))"
proof (cases "present condition (Conditions status)")
  case True
  then show ?thesis by (simp add: setCondition_present_noop)
next
  case False
  show ?thesis
    unfolding setCondition_absent [OF False] filter_sort by simp
qed

lemma absent_when_changed:
  assumes "distinct (map Type cs)" "c \<in> set cs" "Type c = Type condition"
    and "condition\<lparr>LastTransitionTime := LastTransitionTime c\<rparr> \<noteq> c"
  shows "\<not> present condition cs"
proof
  assume "present condition cs"
  then obtain x where x: "x \<in> set cs" "Type x = Type condition"
    "condition\<lparr>LastTransitionTime := LastTransitionTime x\<rparr> = x"
    unfolding present_def by blast
  from x(1,2) assms(3) have "x \<in> set (filter (\<lambda>y. Type y = Type c) cs)" by simp
  also have "filter (\<lambda>y. Type y = Type c) cs = [c]"
    by (rule filter_unique_key [OF assms(1,2)])
  finally have "x = c" by simp
  with x(3) assms(4) show False by simp
qed

section \<open>The phase tracker\<close>

text \<open>
  C9. \<^verbatim>\<open>SetPhase(phase, message)\<close> writes the two fields \<^verbatim>\<open>Phase\<close> and \<^verbatim>\<open>Message\<close> with the
  given values, whatever the phase was before and whatever value is given, and changes
  neither \<^verbatim>\<open>Conditions\<close> nor \<^verbatim>\<open>CommitStatus\<close>; it is a total function, so it cannot fail.
\<close>

theorem SetPhase_overwrites:
  "Phase (SetPhase phase msg status) = phase \<and>
   Message (SetPhase phase msg status) = msg \<and>
   Conditions (SetPhase phase msg status) = Conditions status \<and>
   CommitStatus (SetPhase phase msg status) = CommitStatus status \<and>
   SetPhase phase msg status =
     \<lparr>Phase = phase, Conditions = Conditions status, Message = msg,
      CommitStatus = CommitStatus status\<rparr>"
  by (simp add: SetPhase_def)

text \<open>
  C10. The condition operations \<^verbatim>\<open>setCondition\<close>, \<^verbatim>\<open>markTypeStatus\<close>, \<^verbatim>\<open>InitializeConditions\<close>,
  \<^verbatim>\<open>MarkConditionTrue\<close>, \<^verbatim>\<open>MarkConditionFalse\<close> and \<^verbatim>\<open>MarkConditionUnknown\<close> leave \<^verbatim>\<open>Phase\<close>,
  \<^verbatim>\<open>Message\<close> and \<^verbatim>\<open>CommitStatus\<close> as they were, and no operation of the file changes
  \<^verbatim>\<open>CommitStatus\<close>.
\<close>

theorem operations_frame:
  "Phase (setCondition now condition status) = Phase status \<and>
   Message (setCondition now condition status) = Message status \<and>
   CommitStatus (setCondition now condition status) = CommitStatus status \<and>
   Phase (markTypeStatus now t s reason message status) = Phase status \<and>
   Message (markTypeStatus now t s reason message status) = Message status \<and>
   CommitStatus (markTypeStatus now t s reason message status) = CommitStatus status \<and>
   Phase (InitializeConditions clock ts status) = Phase status \<and>
   Message (InitializeConditions clock ts status) = Message status \<and>
   CommitStatus (InitializeConditions clock ts status) = CommitStatus status \<and>
   Phase (MarkConditionTrue now t status) = Phase status \<and>
   Message (MarkConditionTrue now t status) = Message status \<and>
   CommitStatus (MarkConditionTrue now t status) = CommitStatus status \<and>
   Phase (MarkConditionFalse now t reason message status) = Phase status \<and>
   Message (MarkConditionFalse now t reason message status) = Message status \<and>
   CommitStatus (MarkConditionFalse now t reason message status) = CommitStatus status \<and>
   Phase (MarkConditionUnknown now t reason message status) = Phase status \<and>
   Message (MarkConditionUnknown now t reason message status) = Message status \<and>
   CommitStatus (MarkConditionUnknown now t reason message status) = CommitStatus status \<and>
   CommitStatus (SetPhase phase msg status) = CommitStatus status \<and>
   CommitStatus (InitConditions now status) = CommitStatus status \<and>
   CommitStatus (MarkRunning now status) = CommitStatus status \<and>
   CommitStatus (MarkFailed now reason message status) = CommitStatus status \<and>
   CommitStatus (MarkNotApplicable now reason message status) = CommitStatus status"
  by (simp add: setCondition_frame InitializeConditions_frame markTypeStatus_def
      MarkConditionTrue_def MarkConditionFalse_def MarkConditionUnknown_def SetPhase_def
      InitConditions_def MarkRunning_def MarkFailed_def MarkNotApplicable_def)

section \<open>The condition set\<close>

text \<open>
  C1, as the code has it. When the list holds a condition \<open>c\<close> of the incoming type
  and the incoming condition agrees with \<open>c\<close> in every field other than the timestamp,
  that is in \<^verbatim>\<open>Type\<close>, \<^verbatim>\<open>Status\<close>, \<^verbatim>\<open>ObservedGeneration\<close>, \<^verbatim>\<open>Reason\<close> and \<^verbatim>\<open>Message\<close>, then
  \<^verbatim>\<open>setCondition\<close> returns the status as it was: no condition and no timestamp changes.
  This holds also when the list has several conditions of that type.
\<close>

theorem setCondition_identical_noop:
  assumes "c \<in> set (Conditions status)"
    and "Type c = Type condition"
    and "Status c = Status condition"
    and "ObservedGeneration c = ObservedGeneration condition"
    and "Reason c = Reason condition"
    and "Condition.Message c = Condition.Message condition"
  shows "setCondition now condition status = status"
proof -
  from assms(2-6) have "condition\<lparr>LastTransitionTime := LastTransitionTime c\<rparr> = c"
    by (intro Condition.equality) simp_all
  with assms(1,2) show ?thesis by (rule setCondition_noop)
qed

theorem setCondition_identical_noop_witness:
  "storedSuccessful \<in> set (Conditions runningStatus) \<and>
   setCondition 20 successfulCondition runningStatus = runningStatus"
  using setCondition_identical_noop [of storedSuccessful runningStatus successfulCondition 20]
  by (simp add: storedSuccessful_def runningStatus_def successfulCondition_def)

text \<open>
  C1 as it is written compares \<^verbatim>\<open>Type\<close>, \<^verbatim>\<open>Status\<close>, \<^verbatim>\<open>Reason\<close> and \<^verbatim>\<open>Message\<close> only. A stored
  condition with \<^verbatim>\<open>ObservedGeneration\<close> 3 agrees in those four fields with the condition
  that \<^verbatim>\<open>MarkRunning\<close> passes (generation 0), yet line 183 sees two different structs, and
  the list is replaced: the generation becomes 0 and the timestamp the current time.
\<close>

theorem setCondition_generation_counterexample:
  "storedObserved \<in> set (Conditions observedStatus) \<and>
   Type storedObserved = Type successfulCondition \<and>
   Status storedObserved = Status successfulCondition \<and>
   Reason storedObserved = Reason successfulCondition \<and>
   Condition.Message storedObserved = Condition.Message successfulCondition \<and>
   Conditions (setCondition 20 successfulCondition observedStatus) =
     [successfulCondition\<lparr>LastTransitionTime := 20\<rparr>] \<and>
   Conditions (setCondition 20 successfulCondition observedStatus) \<noteq> Conditions observedStatus \<and>
   Conditions (MarkRunning 20 observedStatus) \<noteq> Conditions observedStatus"
  by (simp add: storedObserved_def observedStatus_def successfulCondition_def
      setCondition_def MarkRunning_def MarkConditionTrue_def markTypeStatus_def SetPhase_def
      GitSyncConditionConfigured_def ConditionTrue_def)

text \<open>
  C2. Every Mark and upsert operation, called a second time with the arguments of the
  first call, returns the status that the first call left, whatever the clock reads at
  either call: the list of conditions and every timestamp in it stay as they were. This
  holds for every status, also for one whose list has several conditions of one type.
\<close>

theorem operations_idempotent:
  "setCondition now' condition (setCondition now condition status) =
     setCondition now condition status \<and>
   InitializeConditions clock' ts (InitializeConditions clock ts status) =
     InitializeConditions clock ts status \<and>
   MarkConditionTrue now' t (MarkConditionTrue now t status) =
     MarkConditionTrue now t status \<and>
   MarkConditionFalse now' t reason message (MarkConditionFalse now t reason message status) =
     MarkConditionFalse now t reason message status \<and>
   MarkConditionUnknown now' t reason message (MarkConditionUnknown now t reason message status) =
     MarkConditionUnknown now t reason message status \<and>
   MarkRunning now' (MarkRunning now status) = MarkRunning now status \<and>
   MarkFailed now' reason message (MarkFailed now reason message status) =
     MarkFailed now reason message status \<and>
   MarkNotApplicable now' reason message (MarkNotApplicable now reason message status) =
     MarkNotApplicable now reason message status"
proof -
  have phase: "setCondition n c (SetPhase p m s) = SetPhase p m (setCondition n c s)"
    for n c p m s
    by (simp add: setCondition_def SetPhase_def split: option.split prod.split)
  have twice: "SetPhase p m (SetPhase p m s) = SetPhase p m s" for p m s
    by (simp add: SetPhase_def)
  show ?thesis
    by (simp add: setCondition_twice InitializeConditions_twice markTypeStatus_def
        MarkConditionTrue_def MarkConditionFalse_def MarkConditionUnknown_def
        MarkRunning_def MarkFailed_def MarkNotApplicable_def phase twice)
qed

text \<open>
  C3. When the list has at most one condition of each type, so has the list after
  \<^verbatim>\<open>setCondition\<close>, after any sequence of \<^verbatim>\<open>setCondition\<close> calls, and after each operation
  that is built on it.
\<close>

theorem setCondition_unique_types:
  assumes "distinct (map Type (Conditions status))"
  shows "distinct (map Type (Conditions (setCondition now condition status))) \<and>
         distinct (map Type (Conditions (setConditions calls status))) \<and>
         distinct (map Type (Conditions (InitializeConditions clock ts status))) \<and>
         distinct (map Type (Conditions (markTypeStatus now t s reason message status))) \<and>
         distinct (map Type (Conditions (InitConditions now status))) \<and>
         distinct (map Type (Conditions (MarkRunning now status))) \<and>
         distinct (map Type (Conditions (MarkFailed now reason message status))) \<and>
         distinct (map Type (Conditions (MarkNotApplicable now reason message status)))"
proof -
  have calls: "distinct (map Type (Conditions st)) \<Longrightarrow>
      distinct (map Type (Conditions (setConditions cs st)))" for cs st
    by (induction cs arbitrary: st) (auto simp: distinct_types_setCondition)
  have init: "distinct (map Type (Conditions st)) \<Longrightarrow>
      distinct (map Type (Conditions (InitializeConditions ck us st)))" for ck us st
    by (induction us arbitrary: ck st) (simp_all add: distinct_types_setCondition)
  from assms calls init show ?thesis
    by (simp add: distinct_types_setCondition markTypeStatus_def InitConditions_def
        MarkConditionTrue_def MarkConditionFalse_def MarkRunning_def MarkFailed_def
        MarkNotApplicable_def SetPhase_def)
qed

theorem setCondition_unique_types_witness:
  "distinct (map Type (Conditions runningStatus)) \<and>
   distinct (map Type (Conditions (setCondition 20 failedCondition runningStatus))) \<and>
   Conditions (setCondition 20 failedCondition runningStatus) =
     [failedCondition\<lparr>LastTransitionTime := 20\<rparr>]"
  using setCondition_unique_types [of runningStatus 20 failedCondition]
  by (simp add: runningStatus_def storedSuccessful_def successfulCondition_def
      failedCondition_def setCondition_def ConditionTrue_def ConditionFalse_def)

text \<open>
  C4, as the code has it. When the stored list is sorted by type (the empty list of a
  fresh status is), it is sorted by type after each call of every sequence of
  \<^verbatim>\<open>setCondition\<close> calls, whether their types differ or not. And on every status, a call
  that changes the status leaves the list sorted by type.
\<close>

theorem setCondition_sorted:
  "(sorted (map Type (Conditions status)) \<longrightarrow>
      sorted (map Type (Conditions (setConditions (take n calls) status)))) \<and>
   (setCondition now condition status \<noteq> status \<longrightarrow>
      sorted (map Type (Conditions (setCondition now condition status))))"
proof -
  have calls: "sorted (map Type (Conditions st)) \<Longrightarrow>
      sorted (map Type (Conditions (setConditions cs st)))" for cs st
    by (induction cs arbitrary: st) (auto simp: sorted_types_setCondition)
  have "sorted (map Type (Conditions (setCondition now condition status)))"
    if "setCondition now condition status \<noteq> status"
  proof -
    from that have "\<not> present condition (Conditions status)"
      using setCondition_present_noop by blast
    from setCondition_absent [OF this] show ?thesis by (simp only: sorted_sort_key)
  qed
  with calls show ?thesis by blast
qed

theorem setCondition_sorted_witness:
  "sorted (map Type (Conditions emptyStatus)) \<and>
   sorted (map Type (Conditions (setConditions
     (take 2 [(5, unknownCondition ''B''), (6, unknownCondition ''A'')]) emptyStatus))) \<and>
   setCondition 20 (unknownCondition ''C'') unsortedStatus \<noteq> unsortedStatus \<and>
   sorted (map Type (Conditions (setCondition 20 (unknownCondition ''C'') unsortedStatus)))"
proof -
  have e: "sorted (map Type (Conditions emptyStatus))"
    by (simp add: emptyStatus_def)
  have u: "setCondition 20 (unknownCondition ''C'') unsortedStatus \<noteq> unsortedStatus"
    by (simp add: unsortedStatus_def unknownCondition_def setCondition_def)
  from e u setCondition_sorted [of emptyStatus 2
      "[(5, unknownCondition ''B''), (6, unknownCondition ''A'')]" 20
      "unknownCondition ''C''"]
    setCondition_sorted [of unsortedStatus 0 "[]" 20 "unknownCondition ''C''"]
  show ?thesis by blast
qed

text \<open>
  C4 as it is written speaks of every status. On a status whose list is not sorted, a
  call that finds its condition already stored returns at line 184 before the sort of
  line 191, and the list stays unsorted: the single call below (a sequence of calls
  with distinct types) leaves the types in the order B, A.
\<close>

theorem setCondition_sorted_counterexample:
  "distinct (map (Type \<circ> snd) [(20, unknownCondition ''B'')]) \<and>
   map Type (Conditions (setConditions [(20, unknownCondition ''B'')] unsortedStatus)) =
     [''B'', ''A''] \<and>
   \<not> sorted (map Type (Conditions (setConditions [(20, unknownCondition ''B'')] unsortedStatus)))"
  by (simp add: unsortedStatus_def unknownCondition_def setCondition_def)

text \<open>
  C5, as the code has it. Let the list hold at most one condition of each type and let
  \<open>c\<close> be its condition of the incoming type. If the incoming condition differs from
  \<open>c\<close> in \<^verbatim>\<open>Status\<close>, \<^verbatim>\<open>ObservedGeneration\<close>, \<^verbatim>\<open>Reason\<close> or \<^verbatim>\<open>Message\<close>, the list afterwards has
  exactly one condition of that type, the incoming one stamped with the current time
  (which is not before the old timestamp when the clock has not gone back). If it
  differs in none of them, the status, and so the timestamp, is left as it was.
\<close>

theorem setCondition_timestamp:
  assumes "distinct (map Type (Conditions status))"
    and "c \<in> set (Conditions status)"
    and "Type c = Type condition"
  shows "(Status condition \<noteq> Status c \<or>
          ObservedGeneration condition \<noteq> ObservedGeneration c \<or>
          Reason condition \<noteq> Reason c \<or>
          Condition.Message condition \<noteq> Condition.Message c \<longrightarrow>
            filter (\<lambda>x. Type x = Type condition)
              (Conditions (setCondition now condition status)) =
              [condition\<lparr>LastTransitionTime := now\<rparr>] \<and>
            (LastTransitionTime c \<le> now \<longrightarrow>
               (\<forall>x \<in> set (Conditions (setCondition now condition status)).
                  Type x = Type condition \<longrightarrow>
                  LastTransitionTime c \<le> LastTransitionTime x))) \<and>
         (Status condition = Status c \<and>
          ObservedGeneration condition = ObservedGeneration c \<and>
          Reason condition = Reason c \<and>
          Condition.Message condition = Condition.Message c \<longrightarrow>
            setCondition now condition status = status)"
proof (intro conjI impI)
  assume same: "Status condition = Status c \<and>
    ObservedGeneration condition = ObservedGeneration c \<and>
    Reason condition = Reason c \<and>
    Condition.Message condition = Condition.Message c"
  with assms(3) have "condition\<lparr>LastTransitionTime := LastTransitionTime c\<rparr> = c"
    by (intro Condition.equality) simp_all
  with assms(2,3) show "setCondition now condition status = status"
    by (rule setCondition_noop)
next
  assume changed: "Status condition \<noteq> Status c \<or>
    ObservedGeneration condition \<noteq> ObservedGeneration c \<or>
    Reason condition \<noteq> Reason c \<or>
    Condition.Message condition \<noteq> Condition.Message c"
  let ?new = "condition\<lparr>LastTransitionTime := now\<rparr>"
  let ?after = "Conditions (setCondition now condition status)"
  have only: "x = c" if "x \<in> set (Conditions status)" "Type x = Type condition" for x
  proof -
    from that have "x \<in> set (filter (\<lambda>y. Type y = Type c) (Conditions status))"
      by (simp add: assms(3))
    also have "filter (\<lambda>y. Type y = Type c) (Conditions status) = [c]"
      by (rule filter_unique_key [OF assms(1,2)])
    finally show ?thesis by simp
  qed
  have "\<not> present condition (Conditions status)"
  proof
    assume "present condition (Conditions status)"
    then obtain x where "x \<in> set (Conditions status)" "Type x = Type condition"
      "condition\<lparr>LastTransitionTime := LastTransitionTime x\<rparr> = x"
      unfolding present_def by blast
    with only have "condition\<lparr>LastTransitionTime := LastTransitionTime c\<rparr> = c" by blast
    then have "Status condition = Status c \<and>
      ObservedGeneration condition = ObservedGeneration c \<and>
      Reason condition = Reason c \<and>
      Condition.Message condition = Condition.Message c"
      by (metis Condition.select_convs(2,3,5,6) Condition.surjective
          Condition.update_convs(4))
    with changed show False by blast
  qed
  from setCondition_absent [OF this]
  have after: "?after = sort_key Type
      (filter (\<lambda>x. Type x \<noteq> Type condition) (Conditions status) @ [?new])" .
  show stamped: "filter (\<lambda>x. Type x = Type condition) ?after = [?new]"
    unfolding after filter_sort by simp
  show "\<forall>x \<in> set ?after. Type x = Type condition \<longrightarrow>
          LastTransitionTime c \<le> LastTransitionTime x"
    if "LastTransitionTime c \<le> now"
  proof (intro ballI impI)
    fix x
    assume "x \<in> set ?after" "Type x = Type condition"
    then have "x \<in> set (filter (\<lambda>x. Type x = Type condition) ?after)" by simp
    then have "x = ?new" unfolding stamped by simp
    with that show "LastTransitionTime c \<le> LastTransitionTime x" by simp
  qed
qed

theorem setCondition_timestamp_witness:
  "distinct (map Type (Conditions runningStatus)) \<and>
   storedSuccessful \<in> set (Conditions runningStatus) \<and>
   Type storedSuccessful = Type failedCondition \<and>
   Status failedCondition \<noteq> Status storedSuccessful \<and>
   LastTransitionTime storedSuccessful \<le> 20 \<and>
   filter (\<lambda>x. Type x = Type failedCondition)
     (Conditions (setCondition 20 failedCondition runningStatus)) =
     [failedCondition\<lparr>LastTransitionTime := 20\<rparr>] \<and>
   setCondition 30 successfulCondition runningStatus = runningStatus"
  using setCondition_timestamp [of runningStatus storedSuccessful failedCondition 20]
    setCondition_timestamp [of runningStatus storedSuccessful successfulCondition 30]
  by (simp add: runningStatus_def storedSuccessful_def successfulCondition_def
      failedCondition_def ConditionTrue_def ConditionFalse_def)

text \<open>
  C5 as it is written fails in two ways. First, a stored condition with
  \<^verbatim>\<open>ObservedGeneration\<close> 3 is restamped (timestamp 10 becomes 20) by an upsert that changes
  none of \<^verbatim>\<open>Status\<close>, \<^verbatim>\<open>Reason\<close>, \<^verbatim>\<open>Message\<close>. Second, when the list holds two conditions of the
  incoming type, an upsert that differs in \<^verbatim>\<open>Status\<close>, \<^verbatim>\<open>Reason\<close> and \<^verbatim>\<open>Message\<close> from the first of
  them but equals the second returns at line 184, and the first keeps its timestamp.
\<close>

theorem setCondition_timestamp_counterexample:
  "storedObserved \<in> set (Conditions observedStatus) \<and>
   Type storedObserved = Type successfulCondition \<and>
   Status storedObserved = Status successfulCondition \<and>
   Reason storedObserved = Reason successfulCondition \<and>
   Condition.Message storedObserved = Condition.Message successfulCondition \<and>
   map LastTransitionTime (Conditions observedStatus) = [10] \<and>
   map LastTransitionTime (Conditions (setCondition 20 successfulCondition observedStatus)) = [20] \<and>
   storedSuccessful \<in> set (Conditions duplicateStatus) \<and>
   Type storedSuccessful = Type failedCondition \<and>
   Status storedSuccessful \<noteq> Status failedCondition \<and>
   Reason storedSuccessful \<noteq> Reason failedCondition \<and>
   Condition.Message storedSuccessful \<noteq> Condition.Message failedCondition \<and>
   setCondition 20 failedCondition duplicateStatus = duplicateStatus"
  by (simp add: storedObserved_def observedStatus_def successfulCondition_def
      storedSuccessful_def storedFailed_def failedCondition_def duplicateStatus_def
      setCondition_def ConditionTrue_def ConditionFalse_def)

section \<open>The composite operations\<close>

text \<open>
  C6, as the code has it. On every status \<^verbatim>\<open>InitConditions()\<close> sets \<^verbatim>\<open>Phase\<close> to \<^verbatim>\<open>Pending\<close>
  and \<^verbatim>\<open>Message\<close> to the empty string; the list is left as it was when a \<^verbatim>\<open>Configured\<close>
  condition with status \<^verbatim>\<open>Unknown\<close>, generation 0, reason \<^verbatim>\<open>"Unknown"\<close> and empty message
  is stored already, and otherwise that condition, stamped with the current time, is
  the only \<^verbatim>\<open>Configured\<close> one afterwards; the conditions of the other types are kept.
  When the list has at most one condition of each type, the \<^verbatim>\<open>Configured\<close> condition
  afterwards is that \<^verbatim>\<open>Unknown\<close> condition and no other, and when the stored \<^verbatim>\<open>Configured\<close>
  condition had another status (\<^verbatim>\<open>True\<close> or \<^verbatim>\<open>False\<close>) it is stamped with the current time.
  On a status with no conditions the list afterwards is exactly that one condition,
  stamped with the current time.
\<close>

theorem InitConditions_resets:
  "Phase (InitConditions now status) = GitSyncPhasePending \<and>
   Message (InitConditions now status) = [] \<and>
   ((\<exists>c \<in> set (Conditions status).
       Type c = GitSyncConditionConfigured \<and> Status c = ConditionUnknown \<and>
       ObservedGeneration c = 0 \<and> Reason c = ''Unknown'' \<and> Condition.Message c = []) \<longrightarrow>
      Conditions (InitConditions now status) = Conditions status) \<and>
   (\<not> (\<exists>c \<in> set (Conditions status).
       Type c = GitSyncConditionConfigured \<and> Status c = ConditionUnknown \<and>
       ObservedGeneration c = 0 \<and> Reason c = ''Unknown'' \<and> Condition.Message c = []) \<longrightarrow>
      filter (\<lambda>c. Type c = GitSyncConditionConfigured)
        (Conditions (InitConditions now status)) =
        [\<lparr>Type = GitSyncConditionConfigured, Status = ConditionUnknown,
          ObservedGeneration = 0, LastTransitionTime = now,
          Reason = ''Unknown'', Message = []\<rparr>]) \<and>
   mset (filter (\<lambda>c. Type c \<noteq> GitSyncConditionConfigured)
          (Conditions (InitConditions now status))) =
     mset (filter (\<lambda>c. Type c \<noteq> GitSyncConditionConfigured) (Conditions status)) \<and>
   (distinct (map Type (Conditions status)) \<longrightarrow>
      (\<exists>t. filter (\<lambda>c. Type c = GitSyncConditionConfigured)
             (Conditions (InitConditions now status)) =
           [\<lparr>Type = GitSyncConditionConfigured, Status = ConditionUnknown,
             ObservedGeneration = 0, LastTransitionTime = t,
             Reason = ''Unknown'', Message = []\<rparr>]) \<and>
      (\<forall>c \<in> set (Conditions status).
         Type c = GitSyncConditionConfigured \<and> Status c \<noteq> ConditionUnknown \<longrightarrow>
           filter (\<lambda>c. Type c = GitSyncConditionConfigured)
             (Conditions (InitConditions now status)) =
           [\<lparr>Type = GitSyncConditionConfigured, Status = ConditionUnknown,
             ObservedGeneration = 0, LastTransitionTime = now,
             Reason = ''Unknown'', Message = []\<rparr>])) \<and>
   (Conditions status = [] \<longrightarrow>
      Conditions (InitConditions now status) =
        [\<lparr>Type = GitSyncConditionConfigured, Status = ConditionUnknown,
          ObservedGeneration = 0, LastTransitionTime = now,
          Reason = ''Unknown'', Message = []\<rparr>])"
proof -
  let ?u = "unknownCondition GitSyncConditionConfigured"
  let ?U = "\<lambda>t. \<lparr>Type = GitSyncConditionConfigured, Status = ConditionUnknown,
    ObservedGeneration = 0, LastTransitionTime = t, Reason = ''Unknown'', Message = []\<rparr>"
  let ?before = "Conditions status"
  let ?after = "Conditions (InitConditions now status)"
  let ?mine = "\<lambda>cs. filter (\<lambda>c. Type c = GitSyncConditionConfigured) cs"
  have after: "?after = Conditions (setCondition now ?u status)"
    by (simp add: InitConditions_def SetPhase_def)
  have u: "Type ?u = GitSyncConditionConfigured" "?u\<lparr>LastTransitionTime := t\<rparr> = ?U t" for t
    by (simp_all add: unknownCondition_def)
  have fields: "Phase (InitConditions now status) = GitSyncPhasePending"
    "Message (InitConditions now status) = []"
    by (simp_all add: InitConditions_def SetPhase_def)
  let ?stored = "\<exists>c \<in> set ?before.
      Type c = GitSyncConditionConfigured \<and> Status c = ConditionUnknown \<and>
      ObservedGeneration c = 0 \<and> Reason c = ''Unknown'' \<and> Condition.Message c = []"
  have stored: "present ?u ?before \<longleftrightarrow> ?stored"
  proof
    assume "present ?u ?before"
    then obtain x where x: "x \<in> set ?before" "x = ?U (LastTransitionTime x)"
      unfolding present_def u by metis
    from x(2) have "Type x = GitSyncConditionConfigured \<and> Status x = ConditionUnknown \<and>
        ObservedGeneration x = 0 \<and> Reason x = ''Unknown'' \<and> Condition.Message x = []"
      by (metis Condition.select_convs(1,2,3,5,6))
    with x(1) show ?stored by blast
  next
    assume ?stored
    then obtain x where x: "x \<in> set ?before" "Type x = GitSyncConditionConfigured"
      "Status x = ConditionUnknown" "ObservedGeneration x = 0" "Reason x = ''Unknown''"
      "Condition.Message x = []"
      by blast
    from x(2-6) have "?U (LastTransitionTime x) = x"
      by (intro Condition.equality) simp_all
    with x(1,2) show "present ?u ?before"
      unfolding present_def u by (intro bexI [of _ x]) simp_all
  qed
  have kept: "?stored \<longrightarrow> ?after = ?before"
  proof
    assume ?stored
    with stored have "present ?u ?before" by blast
    then show "?after = ?before"
      unfolding after by (simp only: setCondition_present_noop)
  qed
  have stamped: "\<not> ?stored \<longrightarrow> ?mine ?after = [?U now]"
  proof
    assume "\<not> ?stored"
    with stored have "\<not> present ?u ?before" by blast
    with setCondition_outcome [of ?u status now]
    have "filter (\<lambda>c. Type c = Type ?u) (Conditions (setCondition now ?u status)) =
        [?u\<lparr>LastTransitionTime := now\<rparr>]"
      by blast
    then show "?mine ?after = [?U now]" unfolding after u .
  qed
  have others: "mset (filter (\<lambda>c. Type c \<noteq> GitSyncConditionConfigured) ?after) =
      mset (filter (\<lambda>c. Type c \<noteq> GitSyncConditionConfigured) ?before)"
    using setCondition_keeps_others [of ?u now status] unfolding after u .
  have only: "\<exists>t. ?mine ?after = [?U t]" if "distinct (map Type ?before)"
  proof -
    from that have "distinct (map Type ?after)"
      unfolding after by (rule distinct_types_setCondition)
    moreover have "present ?u ?after"
      unfolding after by (rule present_after_setCondition)
    ultimately show ?thesis using present_unique [of ?after ?u] unfolding u by blast
  qed
  have reset: "?mine ?after = [?U now]"
    if d: "distinct (map Type ?before)" and c: "c \<in> set ?before"
      "Type c = GitSyncConditionConfigured" "Status c \<noteq> ConditionUnknown" for c
  proof -
    from c(3) have "?u\<lparr>LastTransitionTime := LastTransitionTime c\<rparr> \<noteq> c"
      unfolding u by (metis Condition.select_convs(2))
    with d c(1,2) have "\<not> present ?u ?before"
      by (intro absent_when_changed [of _ c]) (simp_all add: u)
    with setCondition_outcome [of ?u status now] show ?thesis
      unfolding after u by blast
  qed
  have fresh: "?after = [?U now]" if "?before = []"
    unfolding after using that by (simp add: setCondition_def unknownCondition_def)
  from only reset have unique: "distinct (map Type ?before) \<longrightarrow>
      (\<exists>t. ?mine ?after = [?U t]) \<and>
      (\<forall>c \<in> set ?before.
         Type c = GitSyncConditionConfigured \<and> Status c \<noteq> ConditionUnknown \<longrightarrow>
           ?mine ?after = [?U now])"
    by blast
  from fresh have empty: "?before = [] \<longrightarrow> ?after = [?U now]" by blast
  from fields kept stamped others unique empty show ?thesis by (intro conjI)
qed

theorem InitConditions_resets_witness:
  "distinct (map Type (Conditions threeStatus)) \<and>
   storedSuccessful \<in> set (Conditions threeStatus) \<and>
   Type storedSuccessful = GitSyncConditionConfigured \<and>
   Status storedSuccessful \<noteq> ConditionUnknown \<and>
   Phase (InitConditions 20 threeStatus) = GitSyncPhasePending \<and>
   filter (\<lambda>c. Type c = GitSyncConditionConfigured)
     (Conditions (InitConditions 20 threeStatus)) =
     [\<lparr>Type = GitSyncConditionConfigured, Status = ConditionUnknown,
       ObservedGeneration = 0, LastTransitionTime = 20,
       Reason = ''Unknown'', Message = []\<rparr>] \<and>
   Conditions emptyStatus = [] \<and>
   Conditions (InitConditions 5 emptyStatus) =
     [\<lparr>Type = GitSyncConditionConfigured, Status = ConditionUnknown,
       ObservedGeneration = 0, LastTransitionTime = 5,
       Reason = ''Unknown'', Message = []\<rparr>] \<and>
   storedUnknown \<in> set (Conditions pendingStatus) \<and>
   Type storedUnknown = GitSyncConditionConfigured \<and>
   Status storedUnknown = ConditionUnknown \<and>
   ObservedGeneration storedUnknown = 0 \<and>
   Reason storedUnknown = ''Unknown'' \<and>
   Condition.Message storedUnknown = [] \<and>
   Conditions (InitConditions 20 pendingStatus) = Conditions pendingStatus"
proof -
  have h: "distinct (map Type (Conditions threeStatus))"
    "storedSuccessful \<in> set (Conditions threeStatus)"
    "Type storedSuccessful = GitSyncConditionConfigured"
    "Status storedSuccessful \<noteq> ConditionUnknown"
    "Conditions emptyStatus = []"
    by (simp_all add: threeStatus_def storedSuccessful_def successfulCondition_def
        unknownCondition_def emptyStatus_def GitSyncConditionConfigured_def
        ConditionTrue_def ConditionUnknown_def)
  have k: "storedUnknown \<in> set (Conditions pendingStatus)"
    "Type storedUnknown = GitSyncConditionConfigured"
    "Status storedUnknown = ConditionUnknown"
    "ObservedGeneration storedUnknown = 0"
    "Reason storedUnknown = ''Unknown''"
    "Condition.Message storedUnknown = []"
    by (simp_all add: pendingStatus_def storedUnknown_def unknownCondition_def)
  from h k InitConditions_resets [of 20 threeStatus] InitConditions_resets [of 5 emptyStatus]
    InitConditions_resets [of 20 pendingStatus]
  show ?thesis by blast
qed

text \<open>
  C6 as it is written speaks of every status. On a list with two \<^verbatim>\<open>Configured\<close>
  conditions, the first \<^verbatim>\<open>True\<close> and the second already \<^verbatim>\<open>Unknown\<close>, the loop passes the
  first, returns at the second (line 184), and the condition that said \<^verbatim>\<open>True\<close> is still
  stored afterwards.
\<close>

theorem InitConditions_resets_counterexample:
  "storedSuccessful \<in> set (Conditions mixedStatus) \<and>
   Type storedSuccessful = GitSyncConditionConfigured \<and>
   Status storedSuccessful = ConditionTrue \<and>
   Status storedSuccessful \<noteq> ConditionUnknown \<and>
   Conditions (InitConditions 20 mixedStatus) = [storedSuccessful, storedUnknown] \<and>
   storedSuccessful \<in> set (Conditions (InitConditions 20 mixedStatus))"
  by (simp add: mixedStatus_def storedSuccessful_def storedUnknown_def successfulCondition_def
      unknownCondition_def InitConditions_def SetPhase_def setCondition_def
      GitSyncConditionConfigured_def ConditionTrue_def ConditionUnknown_def)

text \<open>
  C7, as the code has it. On every status \<^verbatim>\<open>MarkFailed(reason, message)\<close> sets \<^verbatim>\<open>Phase\<close> to
  \<^verbatim>\<open>Failed\<close> and \<^verbatim>\<open>Message\<close> to \<open>message\<close>; the list is left as it was when a \<^verbatim>\<open>Configured\<close>
  condition with status \<^verbatim>\<open>False\<close>, generation 0 and the given reason and message is
  stored already, and otherwise that condition, stamped with the current time, is the
  only \<^verbatim>\<open>Configured\<close> one afterwards; the conditions of the other types are kept. When the list
  has at most one condition of each type, the \<^verbatim>\<open>Configured\<close> condition afterwards is that
  \<^verbatim>\<open>False\<close> condition and no other, stamped with the current time when the stored one
  differed from it. After \<^verbatim>\<open>InitConditions()\<close> and \<^verbatim>\<open>MarkRunning()\<close> on a fresh status,
  \<^verbatim>\<open>MarkFailed("GitError", "clone failed")\<close> gives phase \<^verbatim>\<open>Failed\<close>, message
  \<^verbatim>\<open>"clone failed"\<close> and the single condition Configured, False, "GitError",
  "clone failed", at every reading of the clock.
\<close>

theorem MarkFailed_sets:
  "Phase (MarkFailed now reason message status) = GitSyncPhaseFailed \<and>
   Message (MarkFailed now reason message status) = message \<and>
   ((\<exists>c \<in> set (Conditions status).
       Type c = GitSyncConditionConfigured \<and> Status c = ConditionFalse \<and>
       ObservedGeneration c = 0 \<and> Reason c = reason \<and> Condition.Message c = message) \<longrightarrow>
      Conditions (MarkFailed now reason message status) = Conditions status) \<and>
   (\<not> (\<exists>c \<in> set (Conditions status).
       Type c = GitSyncConditionConfigured \<and> Status c = ConditionFalse \<and>
       ObservedGeneration c = 0 \<and> Reason c = reason \<and> Condition.Message c = message) \<longrightarrow>
      filter (\<lambda>c. Type c = GitSyncConditionConfigured)
        (Conditions (MarkFailed now reason message status)) =
        [\<lparr>Type = GitSyncConditionConfigured, Status = ConditionFalse,
          ObservedGeneration = 0, LastTransitionTime = now,
          Reason = reason, Message = message\<rparr>]) \<and>
   mset (filter (\<lambda>c. Type c \<noteq> GitSyncConditionConfigured)
          (Conditions (MarkFailed now reason message status))) =
     mset (filter (\<lambda>c. Type c \<noteq> GitSyncConditionConfigured) (Conditions status)) \<and>
   (distinct (map Type (Conditions status)) \<longrightarrow>
      (\<exists>t. filter (\<lambda>c. Type c = GitSyncConditionConfigured)
             (Conditions (MarkFailed now reason message status)) =
           [\<lparr>Type = GitSyncConditionConfigured, Status = ConditionFalse,
             ObservedGeneration = 0, LastTransitionTime = t,
             Reason = reason, Message = message\<rparr>]) \<and>
      (\<forall>c \<in> set (Conditions status).
         Type c = GitSyncConditionConfigured \<and>
         (Status c \<noteq> ConditionFalse \<or> ObservedGeneration c \<noteq> 0 \<or>
          Reason c \<noteq> reason \<or> Condition.Message c \<noteq> message) \<longrightarrow>
           filter (\<lambda>c. Type c = GitSyncConditionConfigured)
             (Conditions (MarkFailed now reason message status)) =
           [\<lparr>Type = GitSyncConditionConfigured, Status = ConditionFalse,
             ObservedGeneration = 0, LastTransitionTime = now,
             Reason = reason, Message = message\<rparr>])) \<and>
   MarkFailed t3 ''GitError'' ''clone failed'' (MarkRunning t2 (InitConditions t1 emptyStatus)) =
     \<lparr>Phase = GitSyncPhaseFailed,
      Conditions =
        [\<lparr>Type = GitSyncConditionConfigured, Status = ConditionFalse,
          ObservedGeneration = 0, LastTransitionTime = t3,
          Reason = ''GitError'', Message = ''clone failed''\<rparr>],
      Message = ''clone failed'', CommitStatus = None\<rparr>"
proof -
  let ?F = "\<lambda>t. \<lparr>Type = GitSyncConditionConfigured, Status = ConditionFalse,
    ObservedGeneration = 0, LastTransitionTime = t, Reason = reason, Message = message\<rparr>"
  let ?f = "?F 0"
  let ?before = "Conditions status"
  let ?after = "Conditions (MarkFailed now reason message status)"
  let ?mine = "\<lambda>cs. filter (\<lambda>c. Type c = GitSyncConditionConfigured) cs"
  have after: "?after = Conditions (setCondition now ?f status)"
    by (simp add: MarkFailed_def MarkConditionFalse_def markTypeStatus_def SetPhase_def)
  have f: "Type ?f = GitSyncConditionConfigured" "?f\<lparr>LastTransitionTime := t\<rparr> = ?F t" for t
    by simp_all
  have fields: "Phase (MarkFailed now reason message status) = GitSyncPhaseFailed"
    "Message (MarkFailed now reason message status) = message"
    by (simp_all add: MarkFailed_def SetPhase_def)
  let ?stored = "\<exists>c \<in> set ?before.
      Type c = GitSyncConditionConfigured \<and> Status c = ConditionFalse \<and>
      ObservedGeneration c = 0 \<and> Reason c = reason \<and> Condition.Message c = message"
  have stored: "present ?f ?before \<longleftrightarrow> ?stored"
  proof
    assume "present ?f ?before"
    then obtain x where x: "x \<in> set ?before" "x = ?F (LastTransitionTime x)"
      unfolding present_def f by metis
    from x(2) have "Type x = GitSyncConditionConfigured \<and> Status x = ConditionFalse \<and>
        ObservedGeneration x = 0 \<and> Reason x = reason \<and> Condition.Message x = message"
      by (metis Condition.select_convs(1,2,3,5,6))
    with x(1) show ?stored by blast
  next
    assume ?stored
    then obtain x where x: "x \<in> set ?before" "Type x = GitSyncConditionConfigured"
      "Status x = ConditionFalse" "ObservedGeneration x = 0" "Reason x = reason"
      "Condition.Message x = message"
      by blast
    from x(2-6) have "?F (LastTransitionTime x) = x"
      by (intro Condition.equality) simp_all
    with x(1,2) show "present ?f ?before"
      unfolding present_def f by (intro bexI [of _ x]) simp_all
  qed
  have kept: "?stored \<longrightarrow> ?after = ?before"
  proof
    assume ?stored
    with stored have "present ?f ?before" by blast
    then show "?after = ?before"
      unfolding after by (simp only: setCondition_present_noop)
  qed
  have stamped: "\<not> ?stored \<longrightarrow> ?mine ?after = [?F now]"
  proof
    assume "\<not> ?stored"
    with stored have "\<not> present ?f ?before" by blast
    with setCondition_outcome [of ?f status now]
    have "filter (\<lambda>c. Type c = Type ?f) (Conditions (setCondition now ?f status)) =
        [?f\<lparr>LastTransitionTime := now\<rparr>]"
      by blast
    then show "?mine ?after = [?F now]" unfolding after f .
  qed
  have others: "mset (filter (\<lambda>c. Type c \<noteq> GitSyncConditionConfigured) ?after) =
      mset (filter (\<lambda>c. Type c \<noteq> GitSyncConditionConfigured) ?before)"
    using setCondition_keeps_others [of ?f now status] unfolding after f .
  have only: "\<exists>t. ?mine ?after = [?F t]" if "distinct (map Type ?before)"
  proof -
    from that have "distinct (map Type ?after)"
      unfolding after by (rule distinct_types_setCondition)
    moreover have "present ?f ?after"
      unfolding after by (rule present_after_setCondition)
    ultimately show ?thesis using present_unique [of ?after ?f] unfolding f by blast
  qed
  have changed: "?mine ?after = [?F now]"
    if d: "distinct (map Type ?before)" and c: "c \<in> set ?before"
      "Type c = GitSyncConditionConfigured"
      "Status c \<noteq> ConditionFalse \<or> ObservedGeneration c \<noteq> 0 \<or>
       Reason c \<noteq> reason \<or> Condition.Message c \<noteq> message"
    for c
  proof -
    from c(3) have "?f\<lparr>LastTransitionTime := LastTransitionTime c\<rparr> \<noteq> c"
      unfolding f by (metis Condition.select_convs(2,3,5,6))
    with d c(1,2) have "\<not> present ?f ?before"
      by (intro absent_when_changed [of _ c]) simp_all
    with setCondition_outcome [of ?f status now] show ?thesis
      unfolding after f by blast
  qed
  from only changed have unique: "distinct (map Type ?before) \<longrightarrow>
      (\<exists>t. ?mine ?after = [?F t]) \<and>
      (\<forall>c \<in> set ?before.
         Type c = GitSyncConditionConfigured \<and>
         (Status c \<noteq> ConditionFalse \<or> ObservedGeneration c \<noteq> 0 \<or>
          Reason c \<noteq> reason \<or> Condition.Message c \<noteq> message) \<longrightarrow>
           ?mine ?after = [?F now])"
    by blast
  have scenario:
    "MarkFailed t3 ''GitError'' ''clone failed''
       (MarkRunning t2 (InitConditions t1 emptyStatus)) =
     \<lparr>Phase = GitSyncPhaseFailed,
      Conditions =
        [\<lparr>Type = GitSyncConditionConfigured, Status = ConditionFalse,
          ObservedGeneration = 0, LastTransitionTime = t3,
          Reason = ''GitError'', Message = ''clone failed''\<rparr>],
      Message = ''clone failed'', CommitStatus = None\<rparr>"
    by (simp add: MarkFailed_def MarkRunning_def InitConditions_def MarkConditionFalse_def
        MarkConditionTrue_def markTypeStatus_def SetPhase_def setCondition_def
        unknownCondition_def emptyStatus_def ConditionTrue_def ConditionFalse_def
        ConditionUnknown_def)
  from fields kept stamped others unique scenario show ?thesis by (intro conjI)
qed

theorem MarkFailed_sets_witness:
  "distinct (map Type (Conditions threeStatus)) \<and>
   storedSuccessful \<in> set (Conditions threeStatus) \<and>
   Type storedSuccessful = GitSyncConditionConfigured \<and>
   Status storedSuccessful \<noteq> ConditionFalse \<and>
   Phase (MarkFailed 20 ''GitError'' ''clone failed'' threeStatus) = GitSyncPhaseFailed \<and>
   Message (MarkFailed 20 ''GitError'' ''clone failed'' threeStatus) = ''clone failed'' \<and>
   filter (\<lambda>c. Type c = GitSyncConditionConfigured)
     (Conditions (MarkFailed 20 ''GitError'' ''clone failed'' threeStatus)) =
     [\<lparr>Type = GitSyncConditionConfigured, Status = ConditionFalse,
       ObservedGeneration = 0, LastTransitionTime = 20,
       Reason = ''GitError'', Message = ''clone failed''\<rparr>] \<and>
   mset (filter (\<lambda>c. Type c \<noteq> GitSyncConditionConfigured)
          (Conditions (MarkFailed 20 ''GitError'' ''clone failed'' threeStatus))) =
     mset [(unknownCondition ''A'')\<lparr>LastTransitionTime := 1\<rparr>,
           (unknownCondition ''Z'')\<lparr>LastTransitionTime := 2\<rparr>] \<and>
   storedFailed \<in> set (Conditions failedStatus) \<and>
   Type storedFailed = GitSyncConditionConfigured \<and>
   Status storedFailed = ConditionFalse \<and>
   ObservedGeneration storedFailed = 0 \<and>
   Reason storedFailed = ''GitError'' \<and>
   Condition.Message storedFailed = ''clone failed'' \<and>
   Conditions (MarkFailed 30 ''GitError'' ''clone failed'' failedStatus) =
     Conditions failedStatus"
proof -
  have s: "storedFailed \<in> set (Conditions failedStatus)"
    "Type storedFailed = GitSyncConditionConfigured"
    "Status storedFailed = ConditionFalse"
    "ObservedGeneration storedFailed = 0"
    "Reason storedFailed = ''GitError''"
    "Condition.Message storedFailed = ''clone failed''"
    by (simp_all add: failedStatus_def storedFailed_def failedCondition_def)
  with MarkFailed_sets [of 30 "''GitError''" "''clone failed''" failedStatus 0 0 0]
  have n: "Conditions (MarkFailed 30 ''GitError'' ''clone failed'' failedStatus) =
      Conditions failedStatus"
    by blast
  have h: "distinct (map Type (Conditions threeStatus))"
    "storedSuccessful \<in> set (Conditions threeStatus)"
    "Type storedSuccessful = GitSyncConditionConfigured"
    "Status storedSuccessful \<noteq> ConditionFalse"
    by (simp_all add: threeStatus_def storedSuccessful_def successfulCondition_def
        unknownCondition_def GitSyncConditionConfigured_def
        ConditionTrue_def ConditionFalse_def)
  have k: "filter (\<lambda>c. Type c \<noteq> GitSyncConditionConfigured) (Conditions threeStatus) =
      [(unknownCondition ''A'')\<lparr>LastTransitionTime := 1\<rparr>,
       (unknownCondition ''Z'')\<lparr>LastTransitionTime := 2\<rparr>]"
    by (simp add: threeStatus_def storedSuccessful_def successfulCondition_def
        unknownCondition_def GitSyncConditionConfigured_def)
  from h s n MarkFailed_sets [of 20 "''GitError''" "''clone failed''" threeStatus 0 0 0]
  show ?thesis unfolding k [symmetric] by blast
qed

text \<open>
  C7 as it is written speaks of every status. On a list with two \<^verbatim>\<open>Configured\<close>
  conditions, the first \<^verbatim>\<open>True\<close> and the second already \<^verbatim>\<open>False\<close> with the reason and message
  of the call, the loop passes the first, returns at the second (line 184), and the
  condition that said \<^verbatim>\<open>True\<close> is still stored afterwards.
\<close>

theorem MarkFailed_sets_counterexample:
  "Conditions (MarkFailed 20 ''GitError'' ''clone failed'' duplicateStatus) =
     [storedSuccessful, storedFailed] \<and>
   Type storedSuccessful = GitSyncConditionConfigured \<and>
   Status storedSuccessful = ConditionTrue \<and>
   Status storedSuccessful \<noteq> ConditionFalse \<and>
   storedSuccessful \<in>
     set (Conditions (MarkFailed 20 ''GitError'' ''clone failed'' duplicateStatus))"
  by (simp add: duplicateStatus_def storedSuccessful_def storedFailed_def
      successfulCondition_def failedCondition_def MarkFailed_def MarkConditionFalse_def
      markTypeStatus_def SetPhase_def setCondition_def
      GitSyncConditionConfigured_def ConditionTrue_def ConditionFalse_def)

text \<open>
  C8. On a status with no conditions, \<^verbatim>\<open>InitializeConditions("A", "B")\<close> and
  \<^verbatim>\<open>InitializeConditions("B", "A")\<close> both give the list A, B, each condition with status
  \<^verbatim>\<open>Unknown\<close>, reason \<^verbatim>\<open>"Unknown"\<close> and empty message. The two lists are equal in every field
  but the timestamps, which are the clock readings of the iterations that stored them;
  with one clock reading throughout they are equal. Run one after the other on the
  same status, the second call changes nothing.
\<close>

theorem InitializeConditions_order:
  "Conditions (InitializeConditions clock [''A'', ''B''] emptyStatus) =
     [(unknownCondition ''A'')\<lparr>LastTransitionTime := clock 0\<rparr>,
      (unknownCondition ''B'')\<lparr>LastTransitionTime := clock 1\<rparr>] \<and>
   Conditions (InitializeConditions clock' [''B'', ''A''] emptyStatus) =
     [(unknownCondition ''A'')\<lparr>LastTransitionTime := clock' 1\<rparr>,
      (unknownCondition ''B'')\<lparr>LastTransitionTime := clock' 0\<rparr>] \<and>
   map (\<lambda>c. c\<lparr>LastTransitionTime := 0\<rparr>)
       (Conditions (InitializeConditions clock [''A'', ''B''] emptyStatus)) =
     map (\<lambda>c. c\<lparr>LastTransitionTime := 0\<rparr>)
       (Conditions (InitializeConditions clock' [''B'', ''A''] emptyStatus)) \<and>
   map (\<lambda>c. (Type c, Status c, Reason c, Condition.Message c))
       (Conditions (InitializeConditions clock [''A'', ''B''] emptyStatus)) =
     [(''A'', ConditionUnknown, ''Unknown'', []), (''B'', ConditionUnknown, ''Unknown'', [])] \<and>
   InitializeConditions (\<lambda>i. now) [''A'', ''B''] emptyStatus =
     InitializeConditions (\<lambda>i. now) [''B'', ''A''] emptyStatus \<and>
   InitializeConditions clock' [''B'', ''A'']
       (InitializeConditions clock [''A'', ''B''] emptyStatus) =
     InitializeConditions clock [''A'', ''B''] emptyStatus"
  by (simp add: emptyStatus_def unknownCondition_def setCondition_def)

end
